theory Spec2Isabelle
  imports Complex_Main "HOL-Library.Multiset" "HOL-Library.Sublist" "HOL-Library.Log_Nat"
    "HOL-Library.List_Lexorder" "HOL-Library.Char_ord" "HOL-Library.Option_ord"
begin

section \<open>Double-precision numbers\<close>





text \<open>
  The values of a Python \<^verbatim>\<open>float\<close>. A result whose rounding reaches \<open>2 ^ 1024\<close> is an
  infinity; \<^verbatim>\<open>*\<close> and \<^verbatim>\<open>+\<close> on floats raise nothing.
\<close>

datatype double = Finite real | PosInf | NegInf | NaN



definition negative :: "double \<Rightarrow> bool" where
  "negative x = (case x of Finite a \<Rightarrow> a < 0 | NegInf \<Rightarrow> True | _ \<Rightarrow> False)"


section \<open>The shop's tables\<close>

text \<open>
  The models of \<^verbatim>\<open>shopapp/models.py\<close> and \<^verbatim>\<open>authapp/models.py\<close>, one record per
  model and one list of rows per table. Field names carry a prefix naming their model
  (\<open>p_price\<close> is \<^verbatim>\<open>Product.price\<close>). Primary keys and user ids are natural numbers,
  the integers a request can carry are \<open>int\<close>. A \<^verbatim>\<open>FloatField\<close> column that the views only
  read holds the real number its finite double denotes; the columns they compute are
  rounded as the code rounds them.

  A table without an \<^verbatim>\<open>ordering\<close> is read in the order of its list. A row object fetched
  from a table is addressed by the position it was found at, which stands for its
  primary key: \<^verbatim>\<open>save()\<close> rewrites that position and \<^verbatim>\<open>delete()\<close> removes it.
\<close>

text \<open>
  \<^verbatim>\<open>Product\<close>, every column of it: \<open>p_date\<close> is the instant of the \<^verbatim>\<open>DateTimeField\<close>,
  \<open>p_preview\<close> the stored path or NULL, \<open>p_category\<close> the key of the category and \<open>p_tags\<close>
  the keys of the linked tags, each once.
\<close>

record product =
  p_id :: nat
  p_title :: string
  p_description :: string
  p_fullDescription :: string
  p_price :: real
  p_date :: int
  p_archived :: bool
  p_preview :: "string option"
  p_category :: nat
  p_freeDelivery :: bool
  p_available :: bool
  p_tags :: "nat list"
  p_count :: nat
  p_rating :: "real option"
  p_reviews_count :: nat
  p_popular :: bool
  p_limited :: bool
  p_banner :: bool

record review =
  r_product :: nat
  r_author :: string
  r_text :: string
  r_rate :: int
  r_email :: "string option"

text \<open>
  \<^verbatim>\<open>Cart.user\<close> is a one-to-one field, so a cart is identified by its user: the table of
  carts is the list of users that own one, and \<open>ci_cart\<close> holds the user of the cart.
\<close>

record cart_item =
  ci_cart :: nat
  ci_product :: nat
  ci_count :: int

record delivery_type =
  dt_name :: string
  dt_price :: real

record order =
  o_id :: nat
  o_createdAt :: int
  o_user :: nat
  o_products :: "nat list"
  o_status :: "nat option"
  o_deliveryType :: "nat option"
  o_paymentType :: "nat option"
  o_totalCost :: double

record store =
  products :: "product list"
  reviews :: "review list"
  carts :: "nat list"
  cart_items :: "cart_item list"
  orders :: "order list"
  order_statuses :: "nat \<rightharpoonup> string"
  delivery_types :: "nat \<rightharpoonup> delivery_type"
  payment_types :: "nat \<rightharpoonup> string"
  profiles :: "nat list"
  session_orderId :: "nat \<rightharpoonup> nat"

section \<open>Responses\<close>

text \<open>
  A view returns a response and the store it leaves. \<open>Response\<close> is a success with its
  status code and body, \<open>Fail\<close> an error response the view builds itself (status code
  and message), and \<open>Unhandled\<close> an exception no handler catches, which the framework
  turns into status 500.
\<close>

datatype exn =
    DoesNotExist
  | MultipleObjectsReturned
  | RelatedObjectDoesNotExist
  | AttributeError
  | FieldError
  | ValueError
  | KeyError
  | OverflowError
  | IntegrityError
  | TypeError
  | NotModelled

text \<open>
  \<open>NotModelled\<close> is no exception of the program: it stands for a request whose answer this
  model does not compute (an ordering that reaches across a relation, or a random one).
\<close>

datatype 'a response = Response nat 'a | Fail nat string | Unhandled exn

text \<open>A value of a request after conversion to the type its consumer needs.\<close>

datatype 'a parsed = Malformed | Value 'a

section \<open>Row operations\<close>

text \<open>\<^verbatim>\<open>Product.objects.get(id=...)\<close>: the key is unique, so at most one row matches.\<close>

definition Product_get :: "product list \<Rightarrow> nat \<Rightarrow> product option" where
  "Product_get ps i = find (\<lambda>p. p_id p = i) ps"

text \<open>\<^verbatim>\<open>save()\<close> of a row object found by a predicate: the first row it holds of.\<close>

fun update_first :: "('a \<Rightarrow> bool) \<Rightarrow> ('a \<Rightarrow> 'a) \<Rightarrow> 'a list \<Rightarrow> 'a list" where
  "update_first P f [] = []"
| "update_first P f (x # xs) = (if P x then f x # xs else x # update_first P f xs)"

text \<open>\<^verbatim>\<open>delete()\<close> of a row object found by a predicate.\<close>

fun remove_first :: "('a \<Rightarrow> bool) \<Rightarrow> 'a list \<Rightarrow> 'a list" where
  "remove_first P [] = []"
| "remove_first P (x # xs) = (if P x then xs else x # remove_first P xs)"

section \<open>The basket\<close>

definition is_item :: "nat \<Rightarrow> nat \<Rightarrow> cart_item \<Rightarrow> bool" where
  "is_item user product_id it = (ci_cart it = user \<and> ci_product it = product_id)"

text \<open>The rows of \<^verbatim>\<open>cart.items.filter(product=product)\<close>.\<close>

definition items_filter :: "cart_item list \<Rightarrow> nat \<Rightarrow> nat \<Rightarrow> cart_item list" where
  "items_filter its user product_id = filter (is_item user product_id) its"

text \<open>\<^verbatim>\<open>Cart.objects.get_or_create(user=user)\<close>.\<close>

definition get_or_create :: "nat list \<Rightarrow> nat \<Rightarrow> nat list" where
  "get_or_create cs user = (if user \<in> set cs then cs else cs @ [user])"

text \<open>
  \<^verbatim>\<open>CartGETSerializer.get_count\<close>: \<^verbatim>\<open>cart.items.get(product=obj)\<close> raises
  \<^verbatim>\<open>MultipleObjectsReturned\<close> on two rows, and only \<^verbatim>\<open>DoesNotExist\<close> is caught.
\<close>

definition get_count :: "cart_item list \<Rightarrow> nat \<Rightarrow> nat \<Rightarrow> exn + int" where
  "get_count its user product_id =
     (case items_filter its user product_id of
        [] \<Rightarrow> Inr 0
      | [it] \<Rightarrow> Inr (ci_count it)
      | _ \<Rightarrow> Inl MultipleObjectsReturned)"

text \<open>
  \<^verbatim>\<open>CartGETSerializer(products, many=True, context={'cart': cart}).data\<close>, reduced to the
  product's key and its count in the cart.
\<close>

fun CartGETSerializer :: "cart_item list \<Rightarrow> nat \<Rightarrow> nat list \<Rightarrow> exn + (nat \<times> int) list" where
  "CartGETSerializer its user [] = Inr []"
| "CartGETSerializer its user (p # ps) =
     (case get_count its user p of
        Inl e \<Rightarrow> Inl e
      | Inr c \<Rightarrow>
          (case CartGETSerializer its user ps of
             Inl e \<Rightarrow> Inl e
           | Inr rest \<Rightarrow> Inr ((p, c) # rest)))"

text \<open>The last lines of each basket view: serialise the cart and answer.\<close>

definition cart_response :: "nat \<Rightarrow> nat \<Rightarrow> store \<Rightarrow> (nat \<times> int) list response \<times> store" where
  "cart_response code user s =
     (let items = filter (\<lambda>it. ci_cart it = user) (cart_items s);
          products = map ci_product items
      in case CartGETSerializer (cart_items s) user products of
           Inl e \<Rightarrow> (Unhandled e, s)
         | Inr body \<Rightarrow> (Response code body, s))"

text \<open>
  \<^verbatim>\<open>CartItem.count\<close> is a \<^verbatim>\<open>PositiveIntegerField\<close>. On SQLite, the database of a Django
  project that configures no other (the settings are not part of the source), the
  column carries the check \<^verbatim>\<open>count >= 0\<close> and holds a signed 64-bit integer: writing a
  negative value raises \<^verbatim>\<open>IntegrityError\<close>, and a value above \<open>2 ^ 63 - 1\<close> raises
  \<^verbatim>\<open>OverflowError\<close> before it reaches the table.
\<close>

definition count_max :: int where
  "count_max = 2 ^ 63 - 1"

definition write_count :: "int \<Rightarrow> exn option" where
  "write_count v =
     (if count_max < v then Some OverflowError
      else if v < 0 then Some IntegrityError
      else None)"

text \<open>
  \<^verbatim>\<open>BasketAPIView.post\<close>. \<^verbatim>\<open>CartItemSerializer\<close> accepts an integer \<open>id\<close> and an integer
  \<open>count\<close> of at least 1, with no upper bound. The cart made by \<^verbatim>\<open>get_or_create\<close> stays when
  a later statement raises.
\<close>

definition BasketAPIView_post ::
  "store \<Rightarrow> nat \<Rightarrow> nat \<Rightarrow> int \<Rightarrow> (nat \<times> int) list response \<times> store" where
  "BasketAPIView_post s user product_id cnt =
     (if cnt < 1 then (Fail 400 ''count: min_value'', s)
      else case Product_get (products s) product_id of
        None \<Rightarrow> (Fail 400 ''Invalid product ID'', s)
      | Some product \<Rightarrow>
          (let s1 = s\<lparr>carts := get_or_create (carts s) user\<rparr>
           in case items_filter (cart_items s1) user product_id of
                [] \<Rightarrow>
                  (case write_count cnt of
                     Some e \<Rightarrow> (Unhandled e, s1)
                   | None \<Rightarrow>
                       cart_response 201 user
                         (s1\<lparr>cart_items := cart_items s1 @
                            [\<lparr>ci_cart = user, ci_product = product_id, ci_count = cnt\<rparr>]\<rparr>))
              | [item] \<Rightarrow>
                  (case write_count (ci_count item + cnt) of
                     Some e \<Rightarrow> (Unhandled e, s1)
                   | None \<Rightarrow>
                       cart_response 201 user
                         (s1\<lparr>cart_items := update_first (is_item user product_id)
                            (\<lambda>it. it\<lparr>ci_count := ci_count it + cnt\<rparr>) (cart_items s1)\<rparr>))
              | _ \<Rightarrow> (Unhandled MultipleObjectsReturned, s1)))"

text \<open>
  \<^verbatim>\<open>BasketAPIView.delete\<close>. \<open>product_id\<close> is \<^verbatim>\<open>request.data.get('id')\<close>, \<open>cnt\<close> is
  \<^verbatim>\<open>request.data.get('count', 1)\<close> before \<^verbatim>\<open>int(count)\<close>, which is reached only when the
  cart holds the product. No serializer checks the count: it can be zero or negative,
  and the count saved can then leave the column's range.
\<close>

definition BasketAPIView_delete ::
  "store \<Rightarrow> nat \<Rightarrow> nat option \<Rightarrow> int parsed option \<Rightarrow> (nat \<times> int) list response \<times> store" where
  "BasketAPIView_delete s user product_id cnt =
     (if user \<notin> set (carts s) then (Fail 404 ''Cart not found.'', s)
      else case product_id of
        None \<Rightarrow> (Fail 400 ''Product ID is required.'', s)
      | Some pid \<Rightarrow>
          (case Product_get (products s) pid of
             None \<Rightarrow> (Fail 404 ''Product not found.'', s)
           | Some product \<Rightarrow>
               (case items_filter (cart_items s) user pid of
                  [] \<Rightarrow> cart_response 200 user s
                | cart_item # _ \<Rightarrow>
                    (case (case cnt of None \<Rightarrow> Value 1 | Some c \<Rightarrow> c) of
                       Malformed \<Rightarrow> (Unhandled ValueError, s)
                     | Value c \<Rightarrow>
                         (let new_count = ci_count cart_item - c
                          in if new_count < 0 then (Fail 400 ''Count cannot be negative.'', s)
                             else if new_count = 0 then
                               cart_response 200 user
                                 (s\<lparr>cart_items := remove_first (is_item user pid) (cart_items s)\<rparr>)
                             else
                               (case write_count new_count of
                                  Some e \<Rightarrow> (Unhandled e, s)
                                | None \<Rightarrow>
                                    cart_response 200 user
                                      (s\<lparr>cart_items := update_first (is_item user pid)
                                         (\<lambda>it. it\<lparr>ci_count := new_count\<rparr>) (cart_items s)\<rparr>)))))))"

section \<open>The catalog\<close>

subsection \<open>Strings of the query\<close>

text \<open>
  A string is the list of the bytes of its UTF-8 encoding. \<^verbatim>\<open>str.lower\<close> is needed on
  ASCII letters only: the views compare lowered strings with ASCII words, which no
  letter outside ASCII lowers to, and SQLite's \<^verbatim>\<open>LIKE\<close> folds the case of ASCII letters only.
\<close>

definition lower_char :: "char \<Rightarrow> char" where
  "lower_char c =
     (case map_of (zip ''ABCDEFGHIJKLMNOPQRSTUVWXYZ'' ''abcdefghijklmnopqrstuvwxyz'') c of
        None \<Rightarrow> c
      | Some l \<Rightarrow> l)"

definition lower :: "string \<Rightarrow> string" where
  "lower s = map lower_char s"

text \<open>
  The characters \<^verbatim>\<open>str.strip()\<close> removes, as their encodings: the ASCII ones (U+0009 to
  U+000D, U+001C to U+0020), then U+0085, U+00A0, U+1680, U+2000 to U+200A, U+2028,
  U+2029, U+202F, U+205F and U+3000.
\<close>

definition spaces :: "string list" where
  "spaces =
     [[CHR 0x09], [CHR 0x0A], [CHR 0x0B], [CHR 0x0C], [CHR 0x0D],
      [CHR 0x1C], [CHR 0x1D], [CHR 0x1E], [CHR 0x1F], [CHR 0x20],
      [CHR 0xC2, CHR 0x85], [CHR 0xC2, CHR 0xA0],
      [CHR 0xE1, CHR 0x9A, CHR 0x80],
      [CHR 0xE2, CHR 0x80, CHR 0x80], [CHR 0xE2, CHR 0x80, CHR 0x81],
      [CHR 0xE2, CHR 0x80, CHR 0x82], [CHR 0xE2, CHR 0x80, CHR 0x83],
      [CHR 0xE2, CHR 0x80, CHR 0x84], [CHR 0xE2, CHR 0x80, CHR 0x85],
      [CHR 0xE2, CHR 0x80, CHR 0x86], [CHR 0xE2, CHR 0x80, CHR 0x87],
      [CHR 0xE2, CHR 0x80, CHR 0x88], [CHR 0xE2, CHR 0x80, CHR 0x89],
      [CHR 0xE2, CHR 0x80, CHR 0x8A], [CHR 0xE2, CHR 0x80, CHR 0xA8],
      [CHR 0xE2, CHR 0x80, CHR 0xA9], [CHR 0xE2, CHR 0x80, CHR 0xAF],
      [CHR 0xE2, CHR 0x81, CHR 0x9F], [CHR 0xE3, CHR 0x80, CHR 0x80]]"

text \<open>The length of the space a string begins with, or ends with; 0 when there is none.\<close>

definition leading_space :: "string \<Rightarrow> nat" where
  "leading_space s = (case find (\<lambda>w. prefix w s) spaces of None \<Rightarrow> 0 | Some w \<Rightarrow> length w)"

definition trailing_space :: "string \<Rightarrow> nat" where
  "trailing_space s = (case find (\<lambda>w. suffix w s) spaces of None \<Rightarrow> 0 | Some w \<Rightarrow> length w)"

function lstrip :: "string \<Rightarrow> string" where
  "lstrip s = (if leading_space s = 0 \<or> s = [] then s else lstrip (drop (leading_space s) s))"
  by pat_completeness auto
termination
  by (relation "measure length") auto

function rstrip :: "string \<Rightarrow> string" where
  "rstrip s =
     (if trailing_space s = 0 \<or> s = [] then s
      else rstrip (take (length s - trailing_space s) s))"
  by pat_completeness auto
termination
  by (relation "measure length") auto

declare lstrip.simps [simp del] rstrip.simps [simp del]

definition strip :: "string \<Rightarrow> string" where
  "strip s = rstrip (lstrip s)"

fun split :: "char \<Rightarrow> string \<Rightarrow> string list" where
  "split sep [] = [[]]"
| "split sep (c # cs) =
     (if c = sep then [] # split sep cs
      else (case split sep cs of [] \<Rightarrow> [[c]] | w # ws \<Rightarrow> (c # w) # ws))"

text \<open>Truth of a query value in an \<^verbatim>\<open>if\<close>: present and not the empty string.\<close>

definition truthy :: "string option \<Rightarrow> bool" where
  "truthy v = (case v of None \<Rightarrow> False | Some s \<Rightarrow> s \<noteq> [])"

subsection \<open>The query and its filters\<close>

text \<open>
  The parameters \<^verbatim>\<open>CatalogAPIView\<close> reads from \<^verbatim>\<open>request.GET\<close>. The two prices and the tag
  ids are given as the ORM converts them to the column's type (\<open>Malformed\<close> when the
  conversion raises); \<open>None\<close> for a price is an absent or empty value. \<open>q_currentPage\<close> is
  \<open>None\<close> when the value is absent or no integer.
\<close>

record query =
  q_name :: "string option"
  q_minPrice :: "real parsed option"
  q_maxPrice :: "real parsed option"
  q_freeDelivery :: "string option"
  q_available :: "string option"
  q_sort :: "string option"
  q_sortType :: "string option"
  q_tags :: "nat parsed list"
  q_currentPage :: "int option"

text \<open>\<^verbatim>\<open>title__icontains\<close>.\<close>

definition icontains :: "string \<Rightarrow> string \<Rightarrow> bool" where
  "icontains title needle = sublist (lower needle) (lower title)"

text \<open>
  \<^verbatim>\<open>queryset.filter(tags__in=tags_param)\<close> joins the products with their tags: a product
  comes once for every tag of its own that is in the list, and no \<^verbatim>\<open>distinct()\<close> follows.
  SQL fixes no order for these rows. The model lists them as SQLite finds them through
  the index on the tag: tag by tag in ascending key, and for one tag in the order of the
  products.
\<close>

definition tags_in :: "nat parsed list \<Rightarrow> product list \<Rightarrow> product list" where
  "tags_in tags_param rows =
     concat (map (\<lambda>t. filter (\<lambda>p. t \<in> set (p_tags p)) rows)
               (sort (remdups (concat (map (\<lambda>v. case v of Value t \<Rightarrow> [t] | Malformed \<Rightarrow> [])
                                           tags_param)))))"

text \<open>The loop that builds \<^verbatim>\<open>ordering\<close> from the zipped fields and directions.\<close>

fun build_ordering :: "(string \<times> string) list \<Rightarrow> string list" where
  "build_ordering [] = []"
| "build_ordering ((field, sort_type) # rest) =
     (if sort_type = ''dec'' then field # build_ordering rest
      else if sort_type = ''inc'' then (CHR ''-'' # field) # build_ordering rest
      else build_ordering rest)"

text \<open>
  Rows sorted by a key, ascending or descending; rows of equal key keep their order.
  The keys compare as SQLite compares the column: numbers by value, text bytewise, NULL
  before everything.
\<close>

definition by_key :: "bool \<Rightarrow> ('a \<Rightarrow> 'k::linorder) \<Rightarrow> 'a list \<Rightarrow> 'a list" where
  "by_key descending k rows = (if descending then rev (sort_key k (rev rows)) else sort_key k rows)"

text \<open>The sorting by a column of \<^verbatim>\<open>Product\<close> itself; \<open>None\<close> for a name that is none.\<close>

definition column :: "string \<Rightarrow> bool \<Rightarrow> (product list \<Rightarrow> product list) option" where
  "column name d =
     (if name = ''id'' \<or> name = ''pk'' then Some (by_key d p_id)
      else if name = ''title'' then Some (by_key d p_title)
      else if name = ''description'' then Some (by_key d p_description)
      else if name = ''fullDescription'' then Some (by_key d p_fullDescription)
      else if name = ''price'' then Some (by_key d p_price)
      else if name = ''date'' then Some (by_key d p_date)
      else if name = ''archived'' then Some (by_key d p_archived)
      else if name = ''preview'' then Some (by_key d p_preview)
      else if name = ''category'' \<or> name = ''category_id'' then Some (by_key d p_category)
      else if name = ''freeDelivery'' then Some (by_key d p_freeDelivery)
      else if name = ''available'' then Some (by_key d p_available)
      else if name = ''count'' then Some (by_key d p_count)
      else if name = ''rating'' then Some (by_key d p_rating)
      else if name = ''reviews_count'' then Some (by_key d p_reviews_count)
      else if name = ''popular'' then Some (by_key d p_popular)
      else if name = ''limited'' then Some (by_key d p_limited)
      else if name = ''banner'' then Some (by_key d p_banner)
      else None)"

text \<open>
  The names under which \<^verbatim>\<open>Product\<close> reaches another table: its many-to-many field and
  the reverse names of the keys that point to it.
\<close>

definition relations :: "string list" where
  "relations =
     [''tags'', ''reviews'', ''specifications'', ''images'', ''discount'', ''cartitem'',
      ''product_orders'']"

text \<open>The part of a name before its first \<^verbatim>\<open>__\<close>; the whole name when it has none.\<close>

fun segment :: "string \<Rightarrow> string" where
  "segment (a # b # s) =
     (if a = CHR ''_'' \<and> b = CHR ''_'' then [] else a # segment (b # s))"
| "segment s = s"

text \<open>
  One entry of \<^verbatim>\<open>order_by\<close>: a leading \<^verbatim>\<open>-\<close> asks for descending order. The entry \<^verbatim>\<open>?\<close>
  (random order), a name of a relation and a name that goes on after \<^verbatim>\<open>__\<close> are not
  modelled; any other name that is no column raises \<^verbatim>\<open>FieldError\<close>.
\<close>

definition order_key :: "string \<Rightarrow> exn + (product list \<Rightarrow> product list)" where
  "order_key name =
     (if name = ''?'' then Inl NotModelled
      else
        (let descending = (name \<noteq> [] \<and> hd name = CHR ''-'');
             item = (if descending then tl name else name)
         in if segment item \<in> set relations then Inl NotModelled
            else case column (segment item) descending of
                   None \<Rightarrow> Inl FieldError
                 | Some f \<Rightarrow> if segment item = item then Inr f else Inl NotModelled))"

text \<open>
  \<^verbatim>\<open>queryset.order_by(*ordering)\<close>: the rows sorted by the first key, ties by the second,
  and so on; rows equal on every key keep their order. No key leaves the rows as they are.
\<close>

fun order_by :: "string list \<Rightarrow> product list \<Rightarrow> exn + product list" where
  "order_by [] rows = Inr rows"
| "order_by (name # names) rows =
     (case order_key name of
        Inl e \<Rightarrow> Inl e
      | Inr f \<Rightarrow>
          (case order_by names rows of
             Inl e \<Rightarrow> Inl e
           | Inr sorted_rows \<Rightarrow> Inr (f sorted_rows)))"

text \<open>\<^verbatim>\<open>CatalogAPIView.filter_queryset\<close>, one definition per \<^verbatim>\<open>if\<close> of the source.\<close>

definition filter_name :: "query \<Rightarrow> product list \<Rightarrow> product list" where
  "filter_name q rows =
     (if truthy (q_name q) then filter (\<lambda>p. icontains (p_title p) (the (q_name q))) rows else rows)"

definition filter_min_price :: "query \<Rightarrow> product list \<Rightarrow> exn + product list" where
  "filter_min_price q rows =
     (case q_minPrice q of
        None \<Rightarrow> Inr rows
      | Some Malformed \<Rightarrow> Inl ValueError
      | Some (Value v) \<Rightarrow> Inr (filter (\<lambda>p. v \<le> p_price p) rows))"

definition filter_max_price :: "query \<Rightarrow> product list \<Rightarrow> exn + product list" where
  "filter_max_price q rows =
     (case q_maxPrice q of
        None \<Rightarrow> Inr rows
      | Some Malformed \<Rightarrow> Inl ValueError
      | Some (Value v) \<Rightarrow> Inr (filter (\<lambda>p. p_price p \<le> v) rows))"

text \<open>\<^verbatim>\<open>freeDelivery\<close> is a column that is never NULL, so the \<^verbatim>\<open>isnull\<close> disjunct selects no row.\<close>

definition filter_freeDelivery :: "query \<Rightarrow> product list \<Rightarrow> product list" where
  "filter_freeDelivery q rows =
     (case q_freeDelivery q of
        None \<Rightarrow> rows
      | Some v \<Rightarrow>
          (if lower v = ''false''
           then filter (\<lambda>p. p_freeDelivery p = True \<or> p_freeDelivery p = False) rows
           else filter (\<lambda>p. p_freeDelivery p = True) rows))"

definition filter_available :: "query \<Rightarrow> product list \<Rightarrow> product list" where
  "filter_available q rows =
     (if truthy (q_available q)
      then filter (\<lambda>p. p_available p = (lower (the (q_available q)) = ''true'')) rows
      else rows)"

definition filter_tags :: "query \<Rightarrow> product list \<Rightarrow> exn + product list" where
  "filter_tags q rows =
     (if q_tags q = [] then Inr rows
      else if Malformed \<in> set (q_tags q) then Inl ValueError
      else Inr (tags_in (q_tags q) rows))"

definition sort_queryset :: "query \<Rightarrow> product list \<Rightarrow> exn + product list" where
  "sort_queryset q rows =
     (if truthy (q_sort q) then
        (case q_sortType q of
           None \<Rightarrow> Inl AttributeError
         | Some sort_type_param \<Rightarrow>
             (let sort_fields = map strip (split CHR '','' (the (q_sort q)));
                  sort_types = map strip (split CHR '','' sort_type_param)
              in order_by (build_ordering (zip sort_fields sort_types)) rows))
      else Inr rows)"

definition filter_queryset :: "query \<Rightarrow> product list \<Rightarrow> exn + product list" where
  "filter_queryset q queryset =
     (case filter_min_price q (filter_name q queryset) of
        Inl e \<Rightarrow> Inl e
      | Inr r1 \<Rightarrow>
          (case filter_max_price q r1 of
             Inl e \<Rightarrow> Inl e
           | Inr r2 \<Rightarrow>
               (case filter_tags q (filter_available q (filter_freeDelivery q r2)) of
                  Inl e \<Rightarrow> Inl e
                | Inr r3 \<Rightarrow> sort_queryset q r3)))"

text \<open>\<^verbatim>\<open>CatalogAPIView.get_queryset\<close>: \<^verbatim>\<open>Product.objects.all()\<close>.\<close>

definition get_queryset :: "store \<Rightarrow> product list" where
  "get_queryset s = products s"

subsection \<open>The paginator\<close>

text \<open>
  \<^verbatim>\<open>django.core.paginator.Paginator(queryset, 10)\<close> with its defaults: no orphans, and an
  empty first page is allowed.
\<close>

datatype page_error = PageNotAnInteger | EmptyPage

definition num_pages :: "nat \<Rightarrow> nat \<Rightarrow> nat" where
  "num_pages cnt per_page = (let hits = max 1 cnt in nat \<lceil>real hits / real per_page\<rceil>)"

definition validate_number :: "nat \<Rightarrow> nat \<Rightarrow> int option \<Rightarrow> page_error + nat" where
  "validate_number cnt per_page number =
     (case number of
        None \<Rightarrow> Inl PageNotAnInteger
      | Some n \<Rightarrow>
          (if n < 1 then Inl EmptyPage
           else if n > int (num_pages cnt per_page) then Inl EmptyPage
           else Inr (nat n)))"

definition page :: "'a list \<Rightarrow> nat \<Rightarrow> nat \<Rightarrow> 'a list" where
  "page object_list per_page number =
     (let bottom = (number - 1) * per_page;
          top = (if bottom + per_page \<ge> length object_list then length object_list
                 else bottom + per_page)
      in take (top - bottom) (drop bottom object_list))"

definition get_page :: "'a list \<Rightarrow> nat \<Rightarrow> int option \<Rightarrow> 'a list \<times> nat" where
  "get_page object_list per_page number =
     (let n = (case validate_number (length object_list) per_page number of
                 Inl PageNotAnInteger \<Rightarrow> 1
               | Inl EmptyPage \<Rightarrow> num_pages (length object_list) per_page
               | Inr k \<Rightarrow> k)
      in (page object_list per_page n, n))"

record catalog_body =
  items :: "product list"
  currentPage :: nat
  lastPage :: nat

text \<open>\<^verbatim>\<open>CatalogAPIView.get\<close>.\<close>

definition CatalogAPIView_get :: "store \<Rightarrow> query \<Rightarrow> catalog_body response" where
  "CatalogAPIView_get s q =
     (case filter_queryset q (get_queryset s) of
        Inl e \<Rightarrow> Unhandled e
      | Inr queryset \<Rightarrow>
          (let (page_obj, number) = get_page queryset 10 (q_currentPage q)
           in Response 200
                \<lparr>items = page_obj, currentPage = number,
                 lastPage = num_pages (length queryset) 10\<rparr>))"

section \<open>Reviews\<close>


datatype 'a validation = Invalid | Valid 'a









section \<open>Orders\<close>


definition Order_save :: "order list \<Rightarrow> order \<Rightarrow> order list" where
  "Order_save os order = update_first (\<lambda>x. o_id x = o_id order) (\<lambda>x. order) os"

text \<open>The key of a new row: beyond every key of the table.\<close>

definition new_pk :: "order list \<Rightarrow> nat" where
  "new_pk os = Suc (fold max (map o_id os) 0)"

text \<open>
  \<^verbatim>\<open>OrderSerializer\<close> reads \<^verbatim>\<open>obj.user.profile\<close> for each order, which raises when the
  user has no profile.
\<close>

definition OrderSerializer :: "store \<Rightarrow> order list \<Rightarrow> exn + order list" where
  "OrderSerializer s os =
     (if list_all (\<lambda>x. o_user x \<in> set (profiles s)) os then Inr os
      else Inl RelatedObjectDoesNotExist)"

text \<open>
  \<^verbatim>\<open>OrderAPIView.get\<close>: \<^verbatim>\<open>Order.objects.all()\<close> under the model's ordering \<^verbatim>\<open>['-createdAt']\<close>;
  orders of the same instant keep the order of the table.
\<close>

definition Order_objects_all :: "store \<Rightarrow> order list" where
  "Order_objects_all s = sort_key (\<lambda>x. - o_createdAt x) (orders s)"

definition OrderAPIView_get :: "store \<Rightarrow> nat \<Rightarrow> order list response" where
  "OrderAPIView_get s user =
     (case OrderSerializer s (Order_objects_all s) of
        Inl e \<Rightarrow> Unhandled e
      | Inr body \<Rightarrow> Response 200 body)"

text \<open>
  The loop of \<^verbatim>\<open>OrderAPIView.post\<close> over the listed ids: \<^verbatim>\<open>Product.objects.get\<close> raises
  \<^verbatim>\<open>DoesNotExist\<close> inside no \<^verbatim>\<open>try\<close>, and \<^verbatim>\<open>order.products.add\<close> writes the link at once
  (a product already linked is not linked again). The order returned holds the links
  written so far.
\<close>

fun add_products :: "product list \<Rightarrow> order \<Rightarrow> nat list \<Rightarrow> exn option \<times> order" where
  "add_products ps order [] = (None, order)"
| "add_products ps order (i # ids) =
     (case Product_get ps i of
        None \<Rightarrow> (Some DoesNotExist, order)
      | Some product \<Rightarrow>
          add_products ps
            (order\<lparr>o_products := (if i \<in> set (o_products order) then o_products order
                                   else o_products order @ [i])\<rparr>) ids)"

text \<open>
  \<^verbatim>\<open>OrderAPIView.post\<close>, for the user of the request, the time \<open>now\<close> of the call and the
  ids of the listed products. \<^verbatim>\<open>get_object_or_404\<close> answers 404 by itself.
\<close>

definition OrderAPIView_post ::
  "store \<Rightarrow> nat \<Rightarrow> int \<Rightarrow> nat list \<Rightarrow> order response \<times> store" where
  "OrderAPIView_post s user now product_ids =
     (let order = \<lparr>o_id = new_pk (orders s), o_createdAt = now, o_user = user, o_products = [],
                   o_status = None, o_deliveryType = None, o_paymentType = None,
                   o_totalCost = Finite 0\<rparr>;
          s1 = s\<lparr>orders := orders s @ [order]\<rparr>;
          (raised, order1) = add_products (products s1) order product_ids;
          s2 = s1\<lparr>orders := Order_save (orders s1) order1\<rparr>
      in case raised of
           Some e \<Rightarrow> (Unhandled e, s2)
         | None \<Rightarrow>
             (if delivery_types s2 3 = None \<or> payment_types s2 3 = None \<or>
                 order_statuses s2 7 = None
              then (Fail 404 ''Not found.'', s2)
              else
                (let order2 = order1\<lparr>o_deliveryType := Some 3, o_paymentType := Some 3,
                                     o_status := Some 7\<rparr>;
                     s3 = s2\<lparr>orders := Order_save (orders s2) order2\<rparr>
                 in case OrderSerializer s3 [order2] of
                      Inl e \<Rightarrow> (Unhandled e, s3)
                    | Inr data \<Rightarrow>
                        (if user \<notin> set (carts s3) then (Unhandled RelatedObjectDoesNotExist, s3)
                         else (Response 201 order2,
                               s3\<lparr>cart_items := filter (\<lambda>it. ci_cart it \<noteq> user) (cart_items s3)\<rparr>)))))"

subsection \<open>Python's numbers\<close>

text \<open>
  A number of a JSON body is a Python \<^verbatim>\<open>int\<close>, of any size, or a \<^verbatim>\<open>float\<close> (\<^verbatim>\<open>true\<close> and
  \<^verbatim>\<open>false\<close> are the integers 1 and 0). \<open>JOther\<close> is a string, \<^verbatim>\<open>null\<close>, a list or an object.
\<close>

datatype number = PyInt int | PyFloat double






subsection \<open>Finalizing\<close>






section \<open>Invariants of the tables\<close>

text \<open>
  The invariant of the basket's table in the data model: one row for a cart and a product,
  and no row with a count below 1.
\<close>

definition cart_wf :: "cart_item list \<Rightarrow> bool" where
  "cart_wf its =
     (distinct (map (\<lambda>it. (ci_cart it, ci_product it)) its) \<and> list_all (\<lambda>it. 1 \<le> ci_count it) its)"



text \<open>
  The calls that write the basket's table, and the store after a call. The invariant is
  shown to hold after every sequence of them.
\<close>

datatype call =
    Add nat nat int
  | Remove nat "nat option" "int parsed option"
  | Place nat int "nat list"

fun step :: "store \<Rightarrow> call \<Rightarrow> store" where
  "step s (Add user product_id cnt) = snd (BasketAPIView_post s user product_id cnt)"
| "step s (Remove user product_id cnt) = snd (BasketAPIView_delete s user product_id cnt)"
| "step s (Place user now product_ids) = snd (OrderAPIView_post s user now product_ids)"





section \<open>The query as the specification reads it\<close>


section \<open>The total as the specification reads it\<close>


section \<open>Example data\<close>

text \<open>A small store on which the theorems below are run.\<close>

definition demo_product :: "nat \<Rightarrow> real \<Rightarrow> product" where
  "demo_product i pr =
     \<lparr>p_id = i, p_title = ''item'', p_description = [], p_fullDescription = [], p_price = pr,
      p_date = 0, p_archived = False, p_preview = None, p_category = 1, p_freeDelivery = False,
      p_available = True, p_tags = [], p_count = 1, p_rating = None, p_reviews_count = 0,
      p_popular = False, p_limited = False, p_banner = False\<rparr>"

definition demo_store :: store where
  "demo_store =
     \<lparr>products = [demo_product 7 150], reviews = [], carts = [], cart_items = [], orders = [],
      order_statuses = Map.empty, delivery_types = Map.empty, payment_types = Map.empty,
      profiles = [], session_orderId = Map.empty\<rparr>"


text \<open>The query with no parameter, and the query of the scenario on prices.\<close>

definition plain_query :: query where
  "plain_query =
     \<lparr>q_name = None, q_minPrice = None, q_maxPrice = None, q_freeDelivery = None,
      q_available = None, q_sort = None, q_sortType = None, q_tags = [], q_currentPage = None\<rparr>"

definition price_query :: "string \<Rightarrow> int option \<Rightarrow> query" where
  "price_query sort_type n =
     plain_query\<lparr>q_minPrice := Some (Value 100), q_maxPrice := Some (Value 200),
                 q_sort := Some ''price'', q_sortType := Some sort_type, q_currentPage := n\<rparr>"


definition archived_store :: store where
  "archived_store = demo_store\<lparr>products := [(demo_product 3 10)\<lparr>p_archived := True\<rparr>]\<rparr>"

definition priced_products :: "product list" where
  "priced_products =
     [demo_product 1 50, demo_product 2 120, demo_product 3 200, demo_product 4 250,
      demo_product 5 100]"







definition demo_order :: "nat \<Rightarrow> int \<Rightarrow> nat \<Rightarrow> order" where
  "demo_order i t u =
     \<lparr>o_id = i, o_createdAt = t, o_user = u, o_products = [], o_status = None,
      o_deliveryType = None, o_paymentType = None, o_totalCost = Finite 0\<rparr>"

definition demo_order_store :: store where
  "demo_order_store =
     demo_store\<lparr>orders := [demo_order 1 100 1, demo_order 2 300 2, demo_order 3 200 1],
                profiles := [1, 2],
                delivery_types := [1 \<mapsto> \<lparr>dt_name = ''express'', dt_price = 500\<rparr>,
                                   2 \<mapsto> \<lparr>dt_name = ''ordinary'', dt_price = 200\<rparr>],
                payment_types := [1 \<mapsto> ''online'', 2 \<mapsto> ''someone''],
                order_statuses := [1 \<mapsto> ''pending payment'']\<rparr>"



definition lookup_store :: store where
  "lookup_store =
     demo_store\<lparr>carts := [1, 5], profiles := [1],
                delivery_types := [3 \<mapsto> \<lparr>dt_name = ''none'', dt_price = 0\<rparr>],
                payment_types := [3 \<mapsto> ''none''],
                order_statuses := [7 \<mapsto> ''draft'']\<rparr>"



section \<open>Properties of the basket\<close>

subsection \<open>Rows found, rewritten and removed\<close>





lemma cart_items_cart_response [simp]: "cart_items (snd (cart_response code u s)) = cart_items s"
  by (simp add: cart_response_def Let_def split: sum.splits)

lemma snd_cart_response [simp]: "snd (cart_response code u s) = s"
  by (simp add: cart_response_def Let_def split: sum.splits)

lemma is_item_other: "(u', p') \<noteq> (u, p) \<Longrightarrow> is_item u p x \<Longrightarrow> \<not> is_item u' p' x"
  by (auto simp: is_item_def)




lemma cart_wf_unique:
  "distinct (map (\<lambda>it. (ci_cart it, ci_product it)) its) \<Longrightarrow> it \<in> set its \<Longrightarrow>
   filter (is_item (ci_cart it) (ci_product it)) its = [it]"
proof (induction its)
  case Nil
  then show ?case by simp
next
  case (Cons a its)
  show ?case
  proof (cases "it = a")
    case True
    have "filter (is_item (ci_cart a) (ci_product a)) its = []"
      using Cons.prems(1) by (auto simp: filter_empty_conv is_item_def image_iff)
    moreover have "is_item (ci_cart a) (ci_product a) a" by (simp add: is_item_def)
    ultimately show ?thesis using True by simp
  next
    case False
    then have "it \<in> set its" using Cons.prems by simp
    moreover have "\<not> is_item (ci_cart it) (ci_product it) a"
      using Cons.prems(1) calculation by (auto simp: is_item_def image_iff)
    ultimately show ?thesis using Cons by simp
  qed
qed

lemma cart_wf_filter:
  assumes "cart_wf its"
  shows "items_filter its u p = [] \<or> (\<exists>it. items_filter its u p = [it] \<and> 1 \<le> ci_count it)"
proof (cases "items_filter its u p")
  case Nil
  then show ?thesis by simp
next
  case (Cons it rest)
  then have "it \<in> set (filter (is_item u p) its)" by (simp add: items_filter_def)
  then have mem: "it \<in> set its" and it: "is_item u p it" by auto
  have "filter (is_item (ci_cart it) (ci_product it)) its = [it]"
    using assms mem by (intro cart_wf_unique) (simp_all add: cart_wf_def)
  moreover have "ci_cart it = u" "ci_product it = p" using it by (simp_all add: is_item_def)
  ultimately have "items_filter its u p = [it]" by (simp add: items_filter_def)
  moreover have "1 \<le> ci_count it" using assms mem by (simp add: cart_wf_def list_all_iff)
  ultimately show ?thesis by blast
qed



lemma snd_post_new:
  assumes "Product_get (products s) p = Some pr" "1 \<le> c" "items_filter (cart_items s) u p = []"
    "write_count c = None"
  shows "snd (BasketAPIView_post s u p c) =
         s\<lparr>carts := get_or_create (carts s) u,
           cart_items := cart_items s @ [\<lparr>ci_cart = u, ci_product = p, ci_count = c\<rparr>]\<rparr>"
  using assms by (simp add: BasketAPIView_post_def Let_def)

lemma snd_post_existing:
  assumes "Product_get (products s) p = Some pr" "1 \<le> c" "items_filter (cart_items s) u p = [it]"
    "write_count (ci_count it + c) = None"
  shows "snd (BasketAPIView_post s u p c) =
         s\<lparr>carts := get_or_create (carts s) u,
           cart_items := update_first (is_item u p) (\<lambda>it. it\<lparr>ci_count := ci_count it + c\<rparr>) (cart_items s)\<rparr>"
  using assms by (simp add: BasketAPIView_post_def Let_def)





subsection \<open>Adding to the basket\<close>




subsection \<open>Removing from the basket\<close>




subsection \<open>Adding and then removing\<close>

text \<open>
  The invariant holds of the empty table, and adding, removing and placing an order keep
  it: it holds in every store these calls reach from one where it holds.
\<close>

lemma cart_wf_Nil: "cart_wf []"
  by (simp add: cart_wf_def)

lemma map_update_first_key:
  "(\<And>x. k (f x) = k x) \<Longrightarrow> map k (update_first P f xs) = map k xs"
  by (induction xs) auto

lemma list_all_update_first:
  "list_all Q xs \<Longrightarrow> (\<And>x. Q x \<Longrightarrow> Q (f x)) \<Longrightarrow> list_all Q (update_first P f xs)"
  by (induction xs) auto

lemma set_remove_first: "set (remove_first P xs) \<subseteq> set xs"
  by (induction xs) auto

lemma distinct_map_remove_first:
  "distinct (map k xs) \<Longrightarrow> distinct (map k (remove_first P xs))"
proof (induction xs)
  case Nil
  then show ?case by simp
next
  case (Cons x xs)
  have "k x \<notin> k ` set (remove_first P xs)"
    using Cons.prems set_remove_first[of P xs] by auto
  then show ?case using Cons by simp
qed

lemma list_all_remove_first: "list_all Q xs \<Longrightarrow> list_all Q (remove_first P xs)"
  using set_remove_first[of P xs] by (auto simp: list_all_iff)

lemma cart_wf_update:
  assumes "cart_wf its" "\<And>x. 1 \<le> ci_count x \<Longrightarrow> 1 \<le> n x"
  shows "cart_wf (update_first P (\<lambda>it. it\<lparr>ci_count := n it\<rparr>) its)"
proof -
  have "map (\<lambda>it. (ci_cart it, ci_product it)) (update_first P (\<lambda>it. it\<lparr>ci_count := n it\<rparr>) its) =
        map (\<lambda>it. (ci_cart it, ci_product it)) its"
    by (rule map_update_first_key) simp
  moreover have "list_all (\<lambda>it. 1 \<le> ci_count it) (update_first P (\<lambda>it. it\<lparr>ci_count := n it\<rparr>) its)"
    using assms by (intro list_all_update_first) (simp_all add: cart_wf_def)
  ultimately show ?thesis using assms(1) by (simp add: cart_wf_def)
qed

lemma cart_wf_post:
  assumes "cart_wf (cart_items s)"
  shows "cart_wf (cart_items (snd (BasketAPIView_post s u p c)))"
proof (cases "c < 1 \<or> Product_get (products s) p = None")
  case True
  then show ?thesis using assms by (auto simp: BasketAPIView_post_def)
next
  case False
  then obtain pr where pr: "Product_get (products s) p = Some pr" and c: "1 \<le> c" by auto
  show ?thesis
    using cart_wf_filter[OF assms, of u p]
  proof (elim disjE exE conjE)
    assume e: "items_filter (cart_items s) u p = []"
    then have "(u, p) \<notin> (\<lambda>it. (ci_cart it, ci_product it)) ` set (cart_items s)"
      by (auto simp: items_filter_def filter_empty_conv is_item_def)
    then have new: "cart_wf (cart_items s @ [\<lparr>ci_cart = u, ci_product = p, ci_count = c\<rparr>])"
      using assms c by (simp add: cart_wf_def)
    show ?thesis
    proof (cases "write_count c")
      case None
      then show ?thesis using new by (simp add: snd_post_new[OF pr c e])
    next
      case (Some ex)
      then show ?thesis
        using assms pr c e by (simp add: BasketAPIView_post_def Let_def)
    qed
  next
    fix it assume e: "items_filter (cart_items s) u p = [it]"
    show ?thesis
    proof (cases "write_count (ci_count it + c)")
      case None
      show ?thesis
        unfolding snd_post_existing[OF pr c e None]
        using cart_wf_update[OF assms, of "\<lambda>it. ci_count it + c" "is_item u p"] c by simp
    next
      case (Some ex)
      then show ?thesis
        using assms pr c e by (simp add: BasketAPIView_post_def Let_def)
    qed
  qed
qed

lemma cart_wf_delete:
  assumes "cart_wf (cart_items s)"
  shows "cart_wf (cart_items (snd (BasketAPIView_delete s u pid cnt)))"
proof -
  have rm: "cart_wf (remove_first P (cart_items s))" for P
    using assms by (simp add: cart_wf_def distinct_map_remove_first list_all_remove_first)
  have up: "cart_wf (update_first P (\<lambda>it. it\<lparr>ci_count := k\<rparr>) (cart_items s))" if "0 < k" for P k
    using cart_wf_update[OF assms, of "\<lambda>it. k" P] that by simp
  show ?thesis
    using assms rm up
    by (auto simp: BasketAPIView_delete_def Let_def
        split: option.splits list.splits parsed.splits)
qed

lemma cart_wf_place:
  assumes "cart_wf (cart_items s)"
  shows "cart_wf (cart_items (snd (OrderAPIView_post s u now ids)))"
proof -
  have "cart_wf (filter P (cart_items s))" for P
    using assms by (simp add: cart_wf_def distinct_map_filter list_all_iff)
  then show ?thesis
    using assms
    by (auto simp: OrderAPIView_post_def Let_def split_beta split: option.splits sum.splits)
qed

lemma cart_wf_step: "cart_wf (cart_items s) \<Longrightarrow> cart_wf (cart_items (step s c))"
  by (cases c) (simp_all add: cart_wf_post cart_wf_delete cart_wf_place)

lemma cart_wf_calls: "cart_wf (cart_items s) \<Longrightarrow> cart_wf (cart_items (foldl step s cs))"
  by (induction cs arbitrary: s) (simp_all add: cart_wf_step)




section \<open>Properties of the catalog\<close>

subsection \<open>The paginator\<close>

lemma num_pages_div: "num_pages n 10 = (max 1 n + 9) div 10"
proof -
  have "\<lceil>real (max 1 n) / real 10\<rceil> = - (- int (max 1 n) div int 10)"
    using ceiling_divide_eq_div[of "int (max 1 n)" "int 10"] by simp
  then show ?thesis
    by (simp add: num_pages_def Let_def)
qed








subsection \<open>The filters\<close>

lemma by_key_mset: "mset (by_key d k rows) = mset rows"
  by (simp add: by_key_def)












lemma stages_currentPage:
  "filter_name (q\<lparr>q_currentPage := n\<rparr>) rows = filter_name q rows"
  "filter_min_price (q\<lparr>q_currentPage := n\<rparr>) rows = filter_min_price q rows"
  "filter_max_price (q\<lparr>q_currentPage := n\<rparr>) rows = filter_max_price q rows"
  "filter_freeDelivery (q\<lparr>q_currentPage := n\<rparr>) rows = filter_freeDelivery q rows"
  "filter_available (q\<lparr>q_currentPage := n\<rparr>) rows = filter_available q rows"
  "filter_tags (q\<lparr>q_currentPage := n\<rparr>) rows = filter_tags q rows"
  "sort_queryset (q\<lparr>q_currentPage := n\<rparr>) rows = sort_queryset q rows"
  by (simp_all add: filter_name_def filter_min_price_def filter_max_price_def
      filter_freeDelivery_def filter_available_def filter_tags_def sort_queryset_def
      split: option.splits)

lemma filter_queryset_currentPage [simp]:
  "filter_queryset (q\<lparr>q_currentPage := n\<rparr>) ps = filter_queryset q ps"
  by (simp add: filter_queryset_def stages_currentPage split: sum.splits)

lemma filter_queryset_plain: "filter_queryset plain_query ps = Inr ps"
  by (simp add: filter_queryset_def plain_query_def filter_name_def filter_min_price_def
      filter_max_price_def filter_freeDelivery_def filter_available_def filter_tags_def
      sort_queryset_def truthy_def)

lemma currentPage_plain: "q_currentPage plain_query = None"
  by (simp add: plain_query_def)

text \<open>
  With a tag filter a product is a row once for each of its tags in the list: here one
  product with tags 1 and 2, asked for with both tags, makes two rows.
\<close>

lemma tags_join_repeats:
  "filter_queryset (plain_query\<lparr>q_tags := [Value 1, Value 2]\<rparr>)
     [(demo_product 1 10)\<lparr>p_tags := [1, 2]\<rparr>] =
   Inr [(demo_product 1 10)\<lparr>p_tags := [1, 2]\<rparr>, (demo_product 1 10)\<lparr>p_tags := [1, 2]\<rparr>]"
  by (simp add: filter_queryset_def plain_query_def filter_name_def filter_min_price_def
      filter_max_price_def filter_freeDelivery_def filter_available_def filter_tags_def
      sort_queryset_def truthy_def tags_in_def)

subsection \<open>Pages of the catalog\<close>





subsection \<open>Archived products\<close>

text \<open>
  Claim C5 asks that no archived product appears on a catalog page. \<^verbatim>\<open>get_queryset\<close>
  returns every product, and no filter of the view reads \<^verbatim>\<open>archived\<close>: on a store whose
  only product is archived, the plain request lists it.
\<close>

theorem C5_archived_product_listed:
  "CatalogAPIView_get archived_store plain_query =
     Response 200 \<lparr>items = [(demo_product 3 10)\<lparr>p_archived := True\<rparr>],
                   currentPage = 1, lastPage = 1\<rparr>
 \<and> p_archived ((demo_product 3 10)\<lparr>p_archived := True\<rparr>)"
  by (simp add: CatalogAPIView_get_def filter_queryset_plain get_queryset_def get_page_def
      validate_number_def currentPage_plain page_def num_pages_div archived_store_def)

subsection \<open>Price range and direction\<close>

lemma strip_unspaced:
  "leading_space s = 0 \<Longrightarrow> trailing_space s = 0 \<Longrightarrow> strip s = s"
  by (simp add: strip_def lstrip.simps[of s] rstrip.simps[of s])

lemma strip_price: "strip ''price'' = ''price''"
  by (rule strip_unspaced) (simp_all add: leading_space_def trailing_space_def spaces_def suffix_to_prefix)

lemma strip_inc: "strip ''inc'' = ''inc''"
  by (rule strip_unspaced) (simp_all add: leading_space_def trailing_space_def spaces_def suffix_to_prefix)

lemma strip_dec: "strip ''dec'' = ''dec''"
  by (rule strip_unspaced) (simp_all add: leading_space_def trailing_space_def spaces_def suffix_to_prefix)

lemma strip_example: "strip [CHR 0x20, CHR ''a'', CHR 0xC2, CHR 0xA0, CHR 0x09] = ''a''"
  by code_simp

lemma order_key_price: "order_key ''price'' = Inr (by_key False p_price)"
  by (simp add: order_key_def column_def relations_def)

lemma order_key_minus_price: "order_key ''-price'' = Inr (by_key True p_price)"
  by (simp add: order_key_def column_def relations_def)

lemma filter_queryset_price_inc:
  "filter_queryset (price_query ''inc'' n) ps =
   Inr (by_key True p_price (filter (\<lambda>p. 100 \<le> p_price p \<and> p_price p \<le> 200) ps))"
  by (simp add: filter_queryset_def price_query_def plain_query_def filter_name_def
      filter_min_price_def filter_max_price_def filter_freeDelivery_def filter_available_def
      filter_tags_def sort_queryset_def truthy_def strip_price strip_inc order_key_minus_price
      conj_commute)

lemma filter_queryset_price_dec:
  "filter_queryset (price_query ''dec'' n) ps =
   Inr (by_key False p_price (filter (\<lambda>p. 100 \<le> p_price p \<and> p_price p \<le> 200) ps))"
  by (simp add: filter_queryset_def price_query_def plain_query_def filter_name_def
      filter_min_price_def filter_max_price_def filter_freeDelivery_def filter_available_def
      filter_tags_def sort_queryset_def truthy_def strip_price strip_dec order_key_price
      conj_commute)

lemma sorted_desc: "sorted_wrt (\<lambda>a b. k b \<le> k a) (by_key True k xs)"
proof -
  have "sorted (map k (sort_key k (rev xs)))"
    by (rule sorted_sort_key)
  then have "sorted_wrt (\<lambda>a b. k a \<le> k b) (sort_key k (rev xs))"
    by (simp add: sorted_map)
  then show ?thesis
    by (simp add: by_key_def sorted_wrt_rev)
qed

lemma sorted_asc: "sorted_wrt (\<lambda>a b. k a \<le> k b) (by_key False k xs)"
proof -
  have "sorted (map k (sort_key k xs))"
    by (rule sorted_sort_key)
  then show ?thesis by (simp add: sorted_map by_key_def)
qed

text \<open>
  Claim C6. For the request with \<^verbatim>\<open>filter[minPrice]=100\<close>, \<^verbatim>\<open>filter[maxPrice]=200\<close>,
  \<^verbatim>\<open>sort=price\<close> and \<^verbatim>\<open>sortType=inc\<close>, the filtered queryset holds exactly the products
  priced from 100 to 200, both included, each once, by descending price; with
  \<^verbatim>\<open>sortType=dec\<close> the same products come by ascending price.
\<close>

theorem C6_price_filter_and_order:
  "(\<exists>rows. filter_queryset (price_query ''inc'' n) ps = Inr rows
      \<and> mset rows = mset (filter (\<lambda>p. 100 \<le> p_price p \<and> p_price p \<le> 200) ps)
      \<and> sorted_wrt (\<lambda>a b. p_price b \<le> p_price a) rows)
 \<and> (\<exists>rows. filter_queryset (price_query ''dec'' n) ps = Inr rows
      \<and> mset rows = mset (filter (\<lambda>p. 100 \<le> p_price p \<and> p_price p \<le> 200) ps)
      \<and> sorted_wrt (\<lambda>a b. p_price a \<le> p_price b) rows)"
  by (simp add: filter_queryset_price_inc filter_queryset_price_dec sorted_desc sorted_asc
      by_key_mset)

theorem C6_price_filter_and_order_witness:
  "((\<exists>rows. filter_queryset (price_query ''inc'' None) priced_products = Inr rows
      \<and> mset rows = mset (filter (\<lambda>p. 100 \<le> p_price p \<and> p_price p \<le> 200) priced_products)
      \<and> sorted_wrt (\<lambda>a b. p_price b \<le> p_price a) rows)
 \<and> (\<exists>rows. filter_queryset (price_query ''dec'' None) priced_products = Inr rows
      \<and> mset rows = mset (filter (\<lambda>p. 100 \<le> p_price p \<and> p_price p \<le> 200) priced_products)
      \<and> sorted_wrt (\<lambda>a b. p_price a \<le> p_price b) rows))
 \<and> filter_queryset (price_query ''inc'' None) priced_products =
      Inr [demo_product 3 200, demo_product 2 120, demo_product 5 100]
 \<and> filter_queryset (price_query ''dec'' None) priced_products =
      Inr [demo_product 5 100, demo_product 2 120, demo_product 3 200]"
proof -
  have "filter_queryset (price_query ''inc'' None) priced_products =
      Inr [demo_product 3 200, demo_product 2 120, demo_product 5 100]"
    by (simp add: filter_queryset_price_inc priced_products_def demo_product_def by_key_def)
  moreover have "filter_queryset (price_query ''dec'' None) priced_products =
      Inr [demo_product 5 100, demo_product 2 120, demo_product 3 200]"
    by (simp add: filter_queryset_price_dec priced_products_def demo_product_def by_key_def)
  ultimately show ?thesis
    using C6_price_filter_and_order[of None priced_products] by blast
qed



section \<open>Properties of the reviews\<close>

subsection \<open>Rows read and saved by their key\<close>




subsection \<open>Rounding\<close>



subsection \<open>The receiver of the signal\<close>



subsection \<open>The view\<close>







subsection \<open>The aggregates of a product after a review\<close>






section \<open>Properties of the orders\<close>

subsection \<open>Placing an order\<close>

text \<open>Whenever a listed id is no product, the view ends in the exception nobody catches.\<close>

lemma add_products_missing:
  "\<exists>i \<in> set ids. Product_get ps i = None \<Longrightarrow> fst (add_products ps order ids) = Some DoesNotExist"
  by (induction ids arbitrary: order) (auto split: option.splits)

lemma post_missing_product:
  assumes "\<exists>i \<in> set ids. Product_get (products s) i = None"
  shows "fst (OrderAPIView_post s user now ids) = Unhandled DoesNotExist"
  using add_products_missing[OF assms]
  by (simp add: OrderAPIView_post_def Let_def split_beta split: option.splits)

text \<open>
  Claim C8 asks for the answer NotFound when a listed product id refers to no product.
  \<^verbatim>\<open>OrderAPIView.post\<close> calls \<^verbatim>\<open>Product.objects.get\<close> outside any \<^verbatim>\<open>try\<close>: for the list of
  product 7, which exists, and product 99, which does not, the exception
  \<^verbatim>\<open>Product.DoesNotExist\<close> is not handled (status 500), and the order created before the
  loop stays in the table, linked to product 7.
\<close>

theorem C8_place_unknown_product:
  "OrderAPIView_post demo_store 1 1000 [7, 99] =
     (Unhandled DoesNotExist,
      demo_store\<lparr>orders := [(demo_order 1 1000 1)\<lparr>o_products := [7]\<rparr>]\<rparr>)
 \<and> Product_get (products demo_store) 7 \<noteq> None
 \<and> Product_get (products demo_store) 99 = None"
  by (simp add: OrderAPIView_post_def demo_store_def demo_order_def demo_product_def
      Product_get_def new_pk_def Order_save_def Let_def)

subsection \<open>Rounding an integer\<close>




subsection \<open>Finalizing an order\<close>













subsection \<open>Listing the orders\<close>

text \<open>
  Claim C10. \<^verbatim>\<open>OrderAPIView.get\<close> does not read the user of the request: two users get the
  same answer on the same store. When every order's owner has a profile (which the
  serializer reads), the answer holds every order of the table, each once, whoever owns
  it, newest first by \<open>createdAt\<close>. When some order's owner has no profile, the answer to
  every user is the exception \<^verbatim>\<open>RelatedObjectDoesNotExist\<close>, which nobody catches (status
  500), and no order is returned.
\<close>

theorem C10_orders_of_all_users:
  "OrderAPIView_get s user1 = OrderAPIView_get s user2
 \<and> (list_all (\<lambda>x. o_user x \<in> set (profiles s)) (orders s) \<longrightarrow>
      (\<exists>body. OrderAPIView_get s user1 = Response 200 body
         \<and> mset body = mset (orders s)
         \<and> sorted_wrt (\<lambda>a b. o_createdAt b \<le> o_createdAt a) body))
 \<and> (\<not> list_all (\<lambda>x. o_user x \<in> set (profiles s)) (orders s) \<longrightarrow>
      OrderAPIView_get s user1 = Unhandled RelatedObjectDoesNotExist)"
proof -
  have srt: "sorted_wrt (\<lambda>a b. o_createdAt b \<le> o_createdAt a) (Order_objects_all s)"
  proof -
    have "sorted (map (\<lambda>x. - o_createdAt x) (sort_key (\<lambda>x. - o_createdAt x) (orders s)))"
      by (rule sorted_sort_key)
    then show ?thesis by (simp add: sorted_map Order_objects_all_def)
  qed
  have all: "list_all P (Order_objects_all s) = list_all P (orders s)" for P
    by (simp add: list_all_iff Order_objects_all_def)
  have ms: "mset (Order_objects_all s) = mset (orders s)"
    by (simp add: Order_objects_all_def)
  show ?thesis
    using srt ms by (simp add: OrderAPIView_get_def OrderSerializer_def all)
qed

text \<open>
  The three orders of the demonstration store, whose owners 1 and 2 have a profile; and
  the same store where only user 1 has one.
\<close>

theorem C10_orders_of_all_users_witness:
  "list_all (\<lambda>x. o_user x \<in> set (profiles demo_order_store)) (orders demo_order_store)
 \<and> OrderAPIView_get demo_order_store 1 = OrderAPIView_get demo_order_store 2
 \<and> OrderAPIView_get demo_order_store 1 =
      Response 200 [demo_order 2 300 2, demo_order 3 200 1, demo_order 1 100 1]
 \<and> \<not> list_all (\<lambda>x. o_user x \<in> set (profiles (demo_order_store\<lparr>profiles := [1]\<rparr>)))
        (orders (demo_order_store\<lparr>profiles := [1]\<rparr>))
 \<and> OrderAPIView_get (demo_order_store\<lparr>profiles := [1]\<rparr>) 1 =
      Unhandled RelatedObjectDoesNotExist"
proof -
  have h: "list_all (\<lambda>x. o_user x \<in> set (profiles demo_order_store)) (orders demo_order_store)"
    by (simp add: demo_order_store_def demo_order_def)
  have n: "\<not> list_all (\<lambda>x. o_user x \<in> set (profiles (demo_order_store\<lparr>profiles := [1]\<rparr>)))
        (orders (demo_order_store\<lparr>profiles := [1]\<rparr>))"
    by (simp add: demo_order_store_def demo_order_def)
  have v: "OrderAPIView_get demo_order_store 1 =
      Response 200 [demo_order 2 300 2, demo_order 3 200 1, demo_order 1 100 1]"
    by (simp add: OrderAPIView_get_def OrderSerializer_def Order_objects_all_def
        demo_order_store_def demo_order_def)
  show ?thesis
    using C10_orders_of_all_users[of demo_order_store 1 2]
      C10_orders_of_all_users[of "demo_order_store\<lparr>profiles := [1]\<rparr>" 1 1] h n v
    by simp
qed

text \<open>
  User 5 has a cart and no profile. Their \<^verbatim>\<open>POST /orders\<close> saves the order and then raises
  in \<^verbatim>\<open>OrderSerializer\<close>; from then on the list of the orders is an error for user 1,
  who has a profile, as for user 5: the persisted order is returned to nobody.
\<close>

theorem C10_orders_of_all_users_counterexample:
  "OrderAPIView_post lookup_store 5 1000 [] =
     (Unhandled RelatedObjectDoesNotExist,
      lookup_store\<lparr>orders := [(demo_order 1 1000 5)\<lparr>o_status := Some 7,
                                 o_deliveryType := Some 3, o_paymentType := Some 3\<rparr>]\<rparr>)
 \<and> orders lookup_store = []
 \<and> OrderAPIView_get lookup_store 1 = Response 200 []
 \<and> OrderAPIView_get (snd (OrderAPIView_post lookup_store 5 1000 [])) 1 =
     Unhandled RelatedObjectDoesNotExist
 \<and> OrderAPIView_get (snd (OrderAPIView_post lookup_store 5 1000 [])) 5 =
     Unhandled RelatedObjectDoesNotExist"
  by (simp add: OrderAPIView_post_def OrderAPIView_get_def OrderSerializer_def
      Order_objects_all_def lookup_store_def demo_store_def demo_order_def new_pk_def
      Order_save_def Let_def)

end
